theory Spec2Isabelle
  imports Main
begin

section \<open>Calls into the framework and the console\<close>

text \<open>
  The demo components call the framework (\<open>NgZone\<close>, \<open>ChangeDetectorRef\<close>) and
  \<open>console.log\<close>. None of these calls writes a field of the component, so each one is
  recorded as an event appended to a trace, in the order the code issues it.
\<close>

datatype event = DetectChanges | ConsoleLog string

section \<open>OutsideZoneComponent\<close>

text \<open>
  The fields of the class, in declaration order. The counters are JavaScript numbers that
  only ever hold integers (they start at 0 and are incremented or assigned an integer
  remainder), so they are integers here; \<open>animationId\<close> is \<open>number | null\<close>.
\<close>

record outside_zone =
  insideZoneCounter :: int
  outsideZoneCounter :: int
  outsideZoneWithManualCounter :: int
  animationFrameCounter :: int
  animationId :: "int option"
  oz_trace :: "event list"

text \<open>
  \<open>NgZone.runOutsideAngular(fn)\<close> and \<open>NgZone.run(fn)\<close> call \<open>fn\<close> synchronously and
  return when it returns; \<open>detectChanges()\<close> and \<open>console.log\<close> leave the fields alone.
\<close>

definition ngZone_runOutsideAngular :: "(outside_zone \<Rightarrow> outside_zone) \<Rightarrow> outside_zone \<Rightarrow> outside_zone" where
  "ngZone_runOutsideAngular fn c = fn c"

definition ngZone_run :: "(outside_zone \<Rightarrow> outside_zone) \<Rightarrow> outside_zone \<Rightarrow> outside_zone" where
  "ngZone_run fn c = fn c"

definition cdr_detectChanges :: "outside_zone \<Rightarrow> outside_zone" where
  "cdr_detectChanges c = c\<lparr>oz_trace := oz_trace c @ [DetectChanges]\<rparr>"

definition oz_console_log :: "string \<Rightarrow> outside_zone \<Rightarrow> outside_zone" where
  "oz_console_log msg c = c\<lparr>oz_trace := oz_trace c @ [ConsoleLog msg]\<rparr>"

text \<open>
  The JavaScript remainder \<open>a % b\<close> on integer operands with \<open>b \<noteq> 0\<close>: the result has
  the sign of the dividend (truncated division), unlike \<open>mod\<close> on \<open>int\<close>.
\<close>

definition js_rem :: "int \<Rightarrow> int \<Rightarrow> int" where
  "js_rem a b = sgn a * (\<bar>a\<bar> mod \<bar>b\<bar>)"

text \<open>
  The loop of \<open>heavyComputation\<close>:
  \<^verbatim>\<open>let result = 0; for (let i = 0; i < 1000000; i++) { result += i; }\<close>
  as a function of the loop variables \<open>i\<close> and \<open>result\<close>.
\<close>

function heavy_loop :: "int \<Rightarrow> int \<Rightarrow> int" where
  "heavy_loop i result = (if i < 1000000 then heavy_loop (i + 1) (result + i) else result)"
  by pat_completeness auto
termination
  by (relation "measure (\<lambda>(i, result). nat (1000000 - i))") auto

text \<open>The defining equation is unfolded by hand only: as a rewrite rule it would unroll the loop.\<close>

declare heavy_loop.simps [simp del]

text \<open>The pairs \<open>(i, result)\<close> that the loop passes through, starting from \<open>(0, 0)\<close>.\<close>

inductive_set heavy_loop_states :: "(int \<times> int) set" where
  start: "(0, 0) \<in> heavy_loop_states"
| iterate: "(i, result) \<in> heavy_loop_states \<Longrightarrow> i < 1000000 \<Longrightarrow> (i + 1, result + i) \<in> heavy_loop_states"

definition heavyComputation_body :: "outside_zone \<Rightarrow> outside_zone" where
  "heavyComputation_body c =
     (let result = heavy_loop 0 0;
          c1 = c\<lparr>outsideZoneWithManualCounter := js_rem result 1000\<rparr>;
          c2 = ngZone_run cdr_detectChanges c1
      in oz_console_log ''Heavy computation done - CD triggered manually'' c2)"

definition heavyComputation :: "outside_zone \<Rightarrow> outside_zone" where
  "heavyComputation c = ngZone_runOutsideAngular heavyComputation_body c"

section \<open>AsyncCdComponent\<close>

text \<open>
  The platform's repeating timers, as the HTML standard specifies \<open>setInterval\<close> and
  \<open>clearInterval\<close>: \<open>setInterval\<close> registers the callback under a handle that is an
  integer greater than zero and not in use, and returns the handle; \<open>clearInterval\<close>
  removes the entry with the given handle and does nothing for any other argument
  (\<open>null\<close> included). The component registers one callback only, so the table holds
  the handles of the intervals that run it.
\<close>

record timers =
  active :: "nat list"
  next_handle :: nat

definition setInterval :: "timers \<Rightarrow> nat \<times> timers" where
  "setInterval t =
     (next_handle t, t\<lparr>active := next_handle t # active t, next_handle := Suc (next_handle t)\<rparr>)"

fun clearInterval :: "nat option \<Rightarrow> timers \<Rightarrow> timers" where
  "clearInterval None t = t"
| "clearInterval (Some h) t = t\<lparr>active := removeAll h (active t)\<rparr>"

text \<open>
  The fields of the class. \<open>intervalId\<close> is declared \<open>any\<close> and initialised to
  \<open>null\<close>; the only values assigned to it are \<open>null\<close> and the result of
  \<open>setInterval\<close>.
\<close>

record async_cd =
  setTimeoutCounter :: int
  setIntervalCounter :: int
  promiseCounter :: int
  asyncCounter :: int
  intervalId :: "nat option"
  ac_console :: "string list"

text \<open>
  The test \<open>if (this.intervalId)\<close> is JavaScript truthiness: \<open>null\<close> is falsy, and a
  number is falsy exactly when it is 0.
\<close>

fun truthy :: "nat option \<Rightarrow> bool" where
  "truthy None = False"
| "truthy (Some h) = (h \<noteq> 0)"

text \<open>The arrow function passed to \<open>setInterval\<close>.\<close>

definition interval_callback :: "async_cd \<Rightarrow> async_cd" where
  "interval_callback c =
     c\<lparr>setIntervalCounter := setIntervalCounter c + 1,
       ac_console := ac_console c @ [''setInterval: Counter updated, CD runs automatically'']\<rparr>"

text \<open>The method, on the component together with the platform's timers.\<close>

definition startSetInterval :: "async_cd \<times> timers \<Rightarrow> async_cd \<times> timers" where
  "startSetInterval w =
     (case w of (c, t) \<Rightarrow>
        if truthy (intervalId c)
        then (c\<lparr>intervalId := None\<rparr>, clearInterval (intervalId c) t)
        else (case setInterval t of (h, t') \<Rightarrow> (c\<lparr>intervalId := Some h\<rparr>, t')))"

text \<open>The platform runs the callback of the interval with handle \<open>h\<close>, if it is still registered.\<close>

definition interval_fires :: "nat \<Rightarrow> async_cd \<times> timers \<Rightarrow> async_cd \<times> timers" where
  "interval_fires h w =
     (case w of (c, t) \<Rightarrow> if h \<in> set (active t) then (interval_callback c, t) else (c, t))"

text \<open>The component as constructed, and a platform on which no interval has been started.\<close>

definition async_cd_init :: async_cd where
  "async_cd_init =
     \<lparr>setTimeoutCounter = 0, setIntervalCounter = 0, promiseCounter = 0, asyncCounter = 0,
      intervalId = None, ac_console = []\<rparr>"

definition timers_init :: timers where
  "timers_init = \<lparr>active = [], next_handle = 1\<rparr>"

text \<open>
  The condition under which \<open>startSetInterval\<close> is studied: every registered
  handle is one the platform has handed out (greater than zero, below the next one), and
  a non-null \<open>intervalId\<close> is the handle of a registered interval.
\<close>

definition timers_ok :: "timers \<Rightarrow> bool" where
  "timers_ok t = (0 < next_handle t \<and> list_all (\<lambda>h. 0 < h \<and> h < next_handle t) (active t))"

definition interval_active :: "async_cd \<times> timers \<Rightarrow> bool" where
  "interval_active w =
     (case w of (c, t) \<Rightarrow>
        timers_ok t \<and> (case intervalId c of None \<Rightarrow> True | Some h \<Rightarrow> h \<in> set (active t)))"

text \<open>
  The states reached from the initial one by calls of \<open>startSetInterval\<close>, by the
  platform firing intervals, and by anything else the component does: its other methods
  and their callbacks write counters and the console only, and their \<open>setTimeout\<close>
  calls take handles from the same pool without touching the registered intervals.
\<close>

inductive_set async_cd_reachable :: "(async_cd \<times> timers) set" where
  initial: "(async_cd_init, timers_init) \<in> async_cd_reachable"
| toggled: "w \<in> async_cd_reachable \<Longrightarrow> startSetInterval w \<in> async_cd_reachable"
| fired: "w \<in> async_cd_reachable \<Longrightarrow> interval_fires h w \<in> async_cd_reachable"
| elsewhere: "(c, t) \<in> async_cd_reachable \<Longrightarrow> intervalId c' = intervalId c \<Longrightarrow>
     active t' = active t \<Longrightarrow> next_handle t \<le> next_handle t' \<Longrightarrow> (c', t') \<in> async_cd_reachable"

section \<open>Properties of OutsideZoneComponent\<close>

text \<open>Twice the loop's result, from any loop state with \<open>i\<close> at most the bound.\<close>

lemma heavy_loop_closed_form:
  "i \<le> 1000000 \<Longrightarrow> 2 * heavy_loop i result = 2 * result + 1000000 * 999999 - i * (i - 1)"
proof (induction i result rule: heavy_loop.induct)
  case (1 i result)
  show ?case
  proof (cases "i < 1000000")
    case True
    then have "2 * heavy_loop (i + 1) (result + i)
        = 2 * (result + i) + 1000000 * 999999 - (i + 1) * (i + 1 - 1)"
      using "1.IH" by simp
    also have "\<dots> = 2 * result + 1000000 * 999999 - i * (i - 1)"
      by (simp add: algebra_simps)
    finally show ?thesis
      using True by (subst heavy_loop.simps) simp
  next
    case False
    with "1.prems" have "i = 1000000" by simp
    then show ?thesis
      by (subst heavy_loop.simps) simp
  qed
qed

lemma heavy_loop_result: "heavy_loop 0 0 = 499999500000"
  using heavy_loop_closed_form [of 0 0] by simp

text \<open>
  Every value the accumulator takes is an integer between 0 and the final sum, which is
  below \<open>2 ^ 53\<close>: the additions are exact in double precision, so integer arithmetic
  models them.
\<close>

lemma heavy_loop_states_inv:
  "(i, result) \<in> heavy_loop_states \<Longrightarrow> 0 \<le> i \<and> i \<le> 1000000 \<and> 2 * result = i * (i - 1)"
  by (induction rule: heavy_loop_states.induct) (auto simp: algebra_simps)

lemma heavy_loop_states_exact:
  assumes "(i, result) \<in> heavy_loop_states"
  shows "0 \<le> result \<and> result \<le> 499999500000 \<and> result < 2 ^ 53"
proof -
  from assms have i: "0 \<le> i" "i \<le> 1000000" and r: "2 * result = i * (i - 1)"
    using heavy_loop_states_inv by blast+
  have lo: "0 \<le> i * (i - 1)"
  proof (cases "i = 0")
    case True
    then show ?thesis by simp
  next
    case False
    with i have "0 \<le> i - 1" by simp
    with i show ?thesis by simp
  qed
  have hi: "i * (i - 1) \<le> 1000000 * 999999"
  proof (cases "i = 0")
    case True
    then show ?thesis by simp
  next
    case False
    with i have "i \<le> 1000000" "i - 1 \<le> 999999" "(0::int) \<le> 1000000" "0 \<le> i - 1"
      by simp_all
    then show ?thesis by (rule mult_mono)
  qed
  from lo hi r show ?thesis by simp
qed

text \<open>
  C9: \<open>heavyComputation\<close> sets \<open>outsideZoneWithManualCounter\<close> to exactly 0 from every
  prior state of the component: the loop computes the sum of the integers 0 through
  999999, which is 499999500000, and the remainder of 499999500000 by 1000 is 0.
\<close>

theorem heavyComputation_sets_counter_zero:
  "outsideZoneWithManualCounter (heavyComputation c) = 0
   \<and> heavy_loop 0 0 = (\<Sum>k = 0..999999. k)
   \<and> heavy_loop 0 0 = 499999500000
   \<and> js_rem 499999500000 1000 = 0"
proof -
  have field: "outsideZoneWithManualCounter (heavyComputation c) = js_rem (heavy_loop 0 0) 1000"
    by (simp add: heavyComputation_def heavyComputation_body_def ngZone_runOutsideAngular_def
        ngZone_run_def cdr_detectChanges_def oz_console_log_def Let_def)
  have rem: "js_rem 499999500000 1000 = 0"
    by (simp add: js_rem_def)
  have "2 * (\<Sum>k = 0..999999. k) = (999999::int) * (999999 + 1)"
    using Sum_Icc_int [of 0 999999] by simp
  then have gauss: "(\<Sum>k = 0..999999. k) = (499999500000::int)"
    by simp
  from field rem gauss show ?thesis
    by (simp add: heavy_loop_result)
qed

section \<open>Properties of AsyncCdComponent\<close>

text \<open>The platform's operations keep the timer table well formed, and a new handle is not in use.\<close>

lemma timers_ok_init: "timers_ok timers_init"
  by (simp add: timers_ok_def timers_init_def)

lemma timers_ok_setInterval: "timers_ok t \<Longrightarrow> timers_ok (snd (setInterval t))"
  by (auto simp: timers_ok_def setInterval_def list_all_iff)

lemma timers_ok_clearInterval: "timers_ok t \<Longrightarrow> timers_ok (clearInterval x t)"
  by (cases x) (auto simp: timers_ok_def list_all_iff)

lemma next_handle_fresh: "timers_ok t \<Longrightarrow> next_handle t \<notin> set (active t)"
  by (auto simp: timers_ok_def list_all_iff)

text \<open>
  On these states the truthiness test of the method is the test against \<open>null\<close>: a
  handle the platform has handed out is never 0.
\<close>

lemma interval_active_truthy:
  "interval_active (c, t) \<Longrightarrow> truthy (intervalId c) = (intervalId c \<noteq> None)"
  by (cases "intervalId c") (auto simp: interval_active_def timers_ok_def list_all_iff)

text \<open>
  The condition holds initially and is kept by the method, by a firing interval, and by
  any step that changes neither \<open>intervalId\<close> nor the timers (the callbacks of the other
  methods only increment counters and log).
\<close>

lemma interval_active_init: "interval_active (async_cd_init, timers_init)"
  by (simp add: interval_active_def timers_ok_init) (simp add: async_cd_init_def)

lemma interval_active_frame:
  assumes "interval_active (c, t)" and "intervalId c' = intervalId c"
    and "active t' = active t" and "next_handle t \<le> next_handle t'"
  shows "interval_active (c', t')"
proof -
  from assms(1) have "timers_ok t"
    by (simp add: interval_active_def)
  with assms(3,4) have "timers_ok t'"
    by (auto simp: timers_ok_def list_all_iff)
  with assms(1,2,3) show ?thesis
    by (simp add: interval_active_def split: option.splits)
qed

lemma interval_active_startSetInterval:
  assumes "interval_active w"
  shows "interval_active (startSetInterval w)"
proof -
  obtain c t where w: "w = (c, t)" by (cases w)
  from assms w have ok: "timers_ok t" by (simp add: interval_active_def)
  show ?thesis
  proof (cases "truthy (intervalId c)")
    case True
    then show ?thesis
      using ok timers_ok_clearInterval [of t "intervalId c"]
      by (simp add: w startSetInterval_def interval_active_def)
  next
    case False
    then show ?thesis
      using ok timers_ok_setInterval [of t]
      by (simp add: w startSetInterval_def interval_active_def setInterval_def)
  qed
qed

lemma interval_active_fires:
  "interval_active w \<Longrightarrow> interval_active (interval_fires h w)"
  by (cases w) (simp add: interval_fires_def interval_active_def interval_callback_def)

lemma async_cd_reachable_active: "w \<in> async_cd_reachable \<Longrightarrow> interval_active w"
proof (induction rule: async_cd_reachable.induct)
  case initial
  show ?case by (rule interval_active_init)
next
  case (toggled w)
  then show ?case by (simp add: interval_active_startSetInterval)
next
  case (fired w h)
  then show ?case by (simp add: interval_active_fires)
next
  case (elsewhere c t c' t')
  then show ?case by (blast intro: interval_active_frame)
qed

text \<open>
  C10: \<open>startSetInterval\<close> is a toggle. When \<open>intervalId\<close> is non-null (an interval is
  active), the call clears that interval, sets \<open>intervalId\<close> to \<open>null\<close> and returns
  without modifying \<open>setTimeoutCounter\<close>, \<open>setIntervalCounter\<close>, \<open>promiseCounter\<close> or
  \<open>asyncCounter\<close>, and starts no interval; when \<open>intervalId\<close> is \<open>null\<close> it starts a
  new interval and stores its handle in \<open>intervalId\<close>.
\<close>

theorem startSetInterval_toggle:
  assumes "interval_active (c, t)" and "startSetInterval (c, t) = (c', t')"
  shows "(intervalId c \<noteq> None \<longrightarrow>
            t' = clearInterval (intervalId c) t
          \<and> (\<forall>h. intervalId c = Some h \<longrightarrow> h \<notin> set (active t'))
          \<and> intervalId c' = None
          \<and> c' = c\<lparr>intervalId := None\<rparr>
          \<and> setTimeoutCounter c' = setTimeoutCounter c
          \<and> setIntervalCounter c' = setIntervalCounter c
          \<and> promiseCounter c' = promiseCounter c
          \<and> asyncCounter c' = asyncCounter c
          \<and> set (active t') \<subseteq> set (active t)
          \<and> next_handle t' = next_handle t)
       \<and> (intervalId c = None \<longrightarrow>
            (next_handle t, t') = setInterval t
          \<and> next_handle t \<notin> set (active t)
          \<and> next_handle t \<in> set (active t')
          \<and> intervalId c' = Some (next_handle t)
          \<and> c' = c\<lparr>intervalId := Some (next_handle t)\<rparr>)"
proof (cases "intervalId c")
  case None
  with assms(2) have "c' = c\<lparr>intervalId := Some (next_handle t)\<rparr>" "(next_handle t, t') = setInterval t"
    by (auto simp: startSetInterval_def setInterval_def)
  moreover from assms(1) have "next_handle t \<notin> set (active t)"
    by (simp add: interval_active_def next_handle_fresh)
  ultimately show ?thesis
    using None by (auto simp: setInterval_def)
next
  case (Some h)
  with assms(1) have "truthy (intervalId c)"
    using interval_active_truthy by blast
  with assms(2) have "c' = c\<lparr>intervalId := None\<rparr>" "t' = clearInterval (intervalId c) t"
    by (auto simp: startSetInterval_def)
  then show ?thesis
    using Some by auto
qed



text \<open>
  The theorem at the initial state, where the call starts interval 1, and at the state
  after that call, where a second call clears it again.
\<close>

theorem startSetInterval_toggle_witness:
  "interval_active (async_cd_init, timers_init)
   \<and> intervalId (fst (startSetInterval (async_cd_init, timers_init))) = Some 1
   \<and> active (snd (startSetInterval (async_cd_init, timers_init))) = [1]
   \<and> interval_active (startSetInterval (async_cd_init, timers_init))
   \<and> startSetInterval (startSetInterval (async_cd_init, timers_init))
       = (async_cd_init, \<lparr>active = [], next_handle = 2\<rparr>)"
proof -
  let ?w0 = "(async_cd_init, timers_init)"
  let ?c1 = "async_cd_init\<lparr>intervalId := Some 1\<rparr>"
  let ?t1 = "\<lparr>active = [1], next_handle = 2\<rparr>"
  have a0: "interval_active ?w0"
    by (simp add: interval_active_def timers_ok_def timers_init_def async_cd_init_def)
  have s0: "startSetInterval ?w0 = (?c1, ?t1)"
    by (simp add: startSetInterval_def setInterval_def timers_init_def async_cd_init_def)
  have a1: "interval_active (?c1, ?t1)"
    by (simp add: interval_active_def timers_ok_def)
  have s1: "startSetInterval (?c1, ?t1) = (async_cd_init, \<lparr>active = [], next_handle = 2\<rparr>)"
    by (simp add: startSetInterval_def async_cd_init_def)
  have n0: "intervalId async_cd_init = None"
    by (simp add: async_cd_init_def)
  have n1: "intervalId ?c1 \<noteq> None"
    by simp
  from startSetInterval_toggle [OF a0 s0] n0
  have "intervalId ?c1 = Some (next_handle timers_init)" by blast
  moreover from startSetInterval_toggle [OF a1 s1] n1
  have "intervalId async_cd_init = None" by blast
  ultimately show ?thesis
    using a0 a1 s0 s1 by (simp add: timers_init_def)
qed

end
